theory Spec2Isabelle
  imports Main "HOL-Library.Sublist"
begin

section \<open>The CV evaluator component (src/components/CVEvaluator.tsx)\<close>

text \<open>
  The component keeps its state in six \<open>useState\<close> cells and changes it only through
  their setters, from four handlers: \<open>handleFileUpload\<close>, \<open>handleDrop\<close>,
  \<open>evaluateCV\<close> and \<open>downloadReport\<close>. Each handler is modelled as a function from
  the state before to the state after, together with the list of effects it has on the
  outside (DOM calls, console output, network requests, the download). A handler always
  runs against the state of the latest render: React renders again after every event.

  The two asynchronous handlers are split at their first \<open>await\<close>: the part that runs
  when the handler is called, and the part that runs when the request settles.
\<close>

subsection \<open>Values that cross the network: parsed JSON\<close>

text \<open>
  \<open>response.json()\<close> yields an arbitrary JSON value and the component stores it
  unchecked, so reports are values of \<open>json\<close>, not of a record. \<open>JNull\<close> is the
  JavaScript \<open>null\<close>; \<open>undefined\<close> (a missing property) is \<open>None\<close> of
  \<open>json option\<close>. Numbers are modelled as integers: the component does no arithmetic
  on them. A \<open>JObj\<close> lists the own properties of the parsed object; a lookup takes the
  first binding of a key.
\<close>

datatype json =
    JNull
  | JBool bool
  | JNum int
  | JStr string
  | JArr "json list"
  | JObj "(string \<times> json) list"

datatype exn =
    Error string
  | TypeError
  | SyntaxError
  | NetworkError
  | InvalidChild

text \<open>
  \<open>v.k\<close> for the property names the component reads (\<open>error\<close>, \<open>status\<close>,
  \<open>title\<close>, \<open>description\<close>, \<open>matchScore\<close>, \<open>sections\<close>). An object gives its
  own property or \<open>undefined\<close>; an array, a string, a number and a boolean have no
  property of these names; reading a property of \<open>null\<close> throws a TypeError.
\<close>

fun own_prop :: "json \<Rightarrow> string \<Rightarrow> json option" where
  "own_prop (JObj kvs) k = map_of kvs k"
| "own_prop v k = None"

definition get_prop :: "json \<Rightarrow> string \<Rightarrow> exn + json option" where
  "get_prop v k = (if v = JNull then Inl TypeError else Inr (own_prop v k))"

text \<open>JavaScript truthiness, as used by \<open>||\<close>, \<open>&&\<close> and \<open>!\<close>.\<close>

fun truthy :: "json \<Rightarrow> bool" where
  "truthy JNull = False"
| "truthy (JBool b) = b"
| "truthy (JNum n) = (n \<noteq> 0)"
| "truthy (JStr s) = (s \<noteq> [])"
| "truthy (JArr xs) = True"
| "truthy (JObj kvs) = True"

text \<open>
  \<open>String(v)\<close>, the conversion a template literal applies. Integers print in decimal
  (for JavaScript this is the output below \<open>10^21\<close> in magnitude); an array prints
  its elements separated by commas, with \<open>null\<close> elements empty.
\<close>

definition digit_char :: "nat \<Rightarrow> char" where
  "digit_char d = char_of (48 + d)"

fun nat_to_string :: "nat \<Rightarrow> string" where
  "nat_to_string n =
     (if n < 10 then [digit_char n]
      else nat_to_string (n div 10) @ [digit_char (n mod 10)])"

definition int_to_string :: "int \<Rightarrow> string" where
  "int_to_string i =
     (if i < 0 then CHR ''-'' # nat_to_string (nat (- i)) else nat_to_string (nat i))"

fun js_to_string :: "json \<Rightarrow> string"
  and js_join :: "json list \<Rightarrow> string" where
  "js_to_string JNull = ''null''"
| "js_to_string (JBool b) = (if b then ''true'' else ''false'')"
| "js_to_string (JNum n) = int_to_string n"
| "js_to_string (JStr s) = s"
| "js_to_string (JArr xs) = js_join xs"
| "js_to_string (JObj kvs) = ''[object Object]''"
| "js_join [] = []"
| "js_join [x] = (if x = JNull then [] else js_to_string x)"
| "js_join (x # y # ys) =
     (if x = JNull then [] else js_to_string x) @ CHR '','' # js_join (y # ys)"

subsection \<open>Files, roles and the component state\<close>

text \<open>
  A \<open>File\<close> of the browser: its name, its declared media type and its size in bytes.
  A \<open>File\<close> object is always truthy, so a state cell holding \<open>null\<close> or a file is a
  \<open>File option\<close>.
\<close>

record File =
  name :: string
  type' :: string
  size' :: nat

text \<open>The second argument of the intake handlers, \<open>'cv' | 'jd'\<close>.\<close>

datatype role = Cv | Jd

text \<open>
  The six \<open>useState\<close> cells. \<open>evaluationReport\<close> holds \<open>null\<close> or whatever the
  evaluation endpoint returned; \<open>result\<close> is declared by the component and never set.
\<close>

record state =
  cvFile :: "File option"
  jobFile :: "File option"
  evaluationReport :: json
  isEvaluating :: bool
  error :: "string option"
  result :: json

definition initial :: state where
  "initial = \<lparr> cvFile = None, jobFile = None, evaluationReport = JNull,
               isEvaluating = False, error = None, result = JNull \<rparr>"

subsection \<open>Effects\<close>

datatype log_arg = LStatus nat | LJson json

datatype request_body =
    FormData "(string \<times> File) list"
  | JsonText json

text \<open>
  \<open>Download f b\<close> stands for the anchor sequence of \<open>downloadReport\<close>: an object URL
  for the blob \<open>b\<close>, an \<open>a\<close> element with \<open>download = f\<close>, appended, clicked and
  removed, and the URL revoked.
\<close>

datatype effect =
    PreventDefault
  | ClassListAdd string
  | ClassListRemove string
  | ConsoleLog string "log_arg option"
  | ConsoleError string exn
  | Fetch string request_body
  | Download string string

subsection \<open>File intake\<close>

definition pdf_error :: string where
  "pdf_error = ''Please upload a PDF file under 5MB''"

text \<open>
  The test both intake handlers apply to \<open>file\<close>, which is \<open>undefined\<close> when the file
  list is empty:
  \<open>file && file.type === 'application/pdf' && file.size <= 5 * 1024 * 1024\<close>.
\<close>

definition accepts :: "File option \<Rightarrow> bool" where
  "accepts file =
     (case file of
        None \<Rightarrow> False
      | Some f \<Rightarrow> type' f = ''application/pdf'' \<and> size' f \<le> 5 * 1024 * 1024)"

text \<open>\<open>files[0]\<close>: the first file of a FileList, \<open>undefined\<close> when there is none.\<close>

definition first_file :: "File list \<Rightarrow> File option" where
  "first_file files = (case files of [] \<Rightarrow> None | f # _ \<Rightarrow> Some f)"

text \<open>
  \<open>handleFileUpload(event, type)\<close>. The argument is \<open>event.target.files\<close>, which may
  be \<open>null\<close>: \<open>files?.[0]\<close> is then \<open>undefined\<close>.
\<close>

definition handleFileUpload :: "File list option \<Rightarrow> role \<Rightarrow> state \<Rightarrow> state \<times> effect list" where
  "handleFileUpload files ty s =
     (let file = (case files of None \<Rightarrow> None | Some fs \<Rightarrow> first_file fs) in
      if accepts file then
        ((if ty = Cv then s\<lparr>cvFile := file\<rparr> else s\<lparr>jobFile := file\<rparr>)\<lparr>error := None\<rparr>, [])
      else (s\<lparr>error := Some pdf_error\<rparr>, []))"

text \<open>\<open>handleDrop(event, type)\<close>. The argument is \<open>event.dataTransfer.files\<close>.\<close>

definition handleDrop :: "File list \<Rightarrow> role \<Rightarrow> state \<Rightarrow> state \<times> effect list" where
  "handleDrop files ty s =
     (let file = first_file files in
      if accepts file then
        ((if ty = Cv then s\<lparr>cvFile := file\<rparr> else s\<lparr>jobFile := file\<rparr>)\<lparr>error := None\<rparr>,
         [PreventDefault, ClassListRemove ''border-blue-500''])
      else (s\<lparr>error := Some pdf_error\<rparr>,
            [PreventDefault, ClassListRemove ''border-blue-500'']))"

text \<open>
  \<open>handleDragOver\<close> and \<open>handleDragLeave\<close> only mark the drop zone; they set no
  state cell.
\<close>

definition handleDragOver :: "state \<Rightarrow> state \<times> effect list" where
  "handleDragOver s = (s, [PreventDefault, ClassListAdd ''border-blue-500''])"

definition handleDragLeave :: "state \<Rightarrow> state \<times> effect list" where
  "handleDragLeave s = (s, [PreventDefault, ClassListRemove ''border-blue-500''])"

subsection \<open>Evaluation\<close>

text \<open>
  What a \<open>fetch\<close> followed by reading the body can come to: the promise of \<open>fetch\<close>
  rejects (\<open>Rejected\<close>), or it resolves to a response with a status; reading the body
  (\<open>response.json()\<close>, \<open>response.blob()\<close>) then gives a value or rejects
  (\<open>None\<close>). \<open>response.ok\<close> is true for a status from 200 to 299.
\<close>

datatype 'b settled = Rejected | Resolved nat "'b option"

definition ok :: "nat \<Rightarrow> bool" where
  "ok status = (200 \<le> status \<and> status \<le> 299)"

definition both_error :: string where
  "both_error = ''Please upload both CV and Job Description''"

definition evaluate_error :: string where
  "evaluate_error = ''Failed to evaluate CV. Please try again.''"

definition evaluate_url :: string where
  "evaluate_url = ''http://cv-evaluator-backend-production.up.railway.app:3000/api/evaluate''"

text \<open>
  \<open>evaluateCV()\<close> up to its first \<open>await\<close>: the guard on the two files, then
  \<open>setIsEvaluating(true)\<close>, \<open>setError(null)\<close>, the form data and the request.
\<close>

definition evaluateCV :: "state \<Rightarrow> state \<times> effect list" where
  "evaluateCV s =
     (case (cvFile s, jobFile s) of
        (Some cv, Some job) \<Rightarrow>
          (s\<lparr>isEvaluating := True, error := None\<rparr>,
           [ConsoleLog ''Sending request to API...'' None,
            Fetch evaluate_url (FormData [(''cv'', cv), (''jobDescription'', job)])])
      | _ \<Rightarrow> (s\<lparr>error := Some both_error\<rparr>, []))"

text \<open>
  The \<open>try\<close> block of \<open>evaluateCV\<close> after the request has settled: it ends by
  throwing (\<open>Inl\<close>) or with the state after \<open>setEvaluationReport(result)\<close>; either
  way with the console lines printed so far.
\<close>

definition evaluate_try :: "json settled \<Rightarrow> state \<Rightarrow> (exn + state) \<times> effect list" where
  "evaluate_try r s =
     (case r of
        Rejected \<Rightarrow> (Inl NetworkError, [])
      | Resolved status None \<Rightarrow>
          (Inl SyntaxError, [ConsoleLog ''Response received:'' (Some (LStatus status))])
      | Resolved status (Some res) \<Rightarrow>
          (let logs = [ConsoleLog ''Response received:'' (Some (LStatus status)),
                       ConsoleLog ''Parsed result:'' (Some (LJson res))] in
           if \<not> ok status then
             (case get_prop res ''error'' of
                Inl e \<Rightarrow> (Inl e, logs)
              | Inr v \<Rightarrow>
                  (Inl (Error (''API error: '' @
                     js_to_string (case v of
                                     None \<Rightarrow> JStr ''Unknown error''
                                   | Some e \<Rightarrow> if truthy e then e else JStr ''Unknown error''))),
                   logs))
           else (Inr (s\<lparr>evaluationReport := res\<rparr>), logs)))"

text \<open>
  The rest of \<open>evaluateCV\<close>, run when the request settles: the \<open>try\<close> block, the
  \<open>catch\<close> block when it threw, and the \<open>finally\<close> block.
\<close>

definition evaluateCV_resume :: "json settled \<Rightarrow> state \<Rightarrow> state \<times> effect list" where
  "evaluateCV_resume r s =
     (case evaluate_try r s of
        (Inl e, logs) \<Rightarrow>
          (s\<lparr>error := Some evaluate_error, isEvaluating := False\<rparr>,
           logs @ [ConsoleError ''Full error details:'' e])
      | (Inr s', logs) \<Rightarrow> (s'\<lparr>isEvaluating := False\<rparr>, logs))"

subsection \<open>Report export\<close>

definition download_error :: string where
  "download_error = ''Failed to download report''"

definition report_url :: string where
  "report_url = ''http://cv-evaluator-backend-production.up.railway.app:3000/api/generate-report''"

text \<open>
  \<open>downloadReport()\<close> up to its first \<open>await\<close>: the request, with
  \<open>JSON.stringify(evaluationReport)\<close> as its body. No state cell is set.
\<close>

definition downloadReport :: "state \<Rightarrow> state \<times> effect list" where
  "downloadReport s = (s, [Fetch report_url (JsonText (evaluationReport s))])"

text \<open>
  The rest of \<open>downloadReport\<close>: a response that is not ok throws before the body is
  read; otherwise the blob is read and offered as a download. The \<open>catch\<close> block
  logs and sets the error; the success path sets no state cell.
\<close>

definition download_try :: "string settled \<Rightarrow> exn + effect list" where
  "download_try r =
     (case r of
        Rejected \<Rightarrow> Inl NetworkError
      | Resolved status body \<Rightarrow>
          if \<not> ok status then Inl (Error ''Failed to generate PDF'')
          else (case body of
                  None \<Rightarrow> Inl NetworkError
                | Some blob \<Rightarrow> Inr [Download ''cv-evaluation-report.pdf'' blob]))"

definition downloadReport_resume :: "string settled \<Rightarrow> state \<Rightarrow> state \<times> effect list" where
  "downloadReport_resume r s =
     (case download_try r of
        Inl e \<Rightarrow> (s\<lparr>error := Some download_error\<rparr>,
                  [ConsoleError ''Error downloading report:'' e])
      | Inr effs \<Rightarrow> (s, effs))"

subsection \<open>Rendering a section of the report\<close>

text \<open>
  What React makes of a value placed as a child, \<open>{x}\<close>, of a host element: a string
  is shown as it is, a number as \<open>String\<close> prints it, \<open>null\<close>, \<open>undefined\<close> and the
  booleans show nothing, an array shows its elements one after the other, and an object
  is refused: React throws \<open>Objects are not valid as a React child\<close>
  (\<open>InvalidChild\<close>) and nothing of the component is rendered. The result is the text
  the element shows.
\<close>

fun child_text :: "json \<Rightarrow> exn + string"
  and children_text :: "json list \<Rightarrow> exn + string" where
  "child_text JNull = Inr []"
| "child_text (JBool b) = Inr []"
| "child_text (JNum n) = Inr (int_to_string n)"
| "child_text (JStr s) = Inr s"
| "child_text (JArr xs) = children_text xs"
| "child_text (JObj kvs) = Inl InvalidChild"
| "children_text [] = Inr []"
| "children_text (x # xs) =
     (case child_text x of
        Inl e \<Rightarrow> Inl e
      | Inr t \<Rightarrow> (case children_text xs of Inl e \<Rightarrow> Inl e | Inr u \<Rightarrow> Inr (t @ u)))"

definition slot_text :: "json option \<Rightarrow> exn + string" where
  "slot_text x = (case x of None \<Rightarrow> Inr [] | Some v \<Rightarrow> child_text v)"

text \<open>
  \<open>section.description.map((keyword, idx) => <span>{keyword}</span>)\<close>: one
  \<open>span\<close> per element, in order, each showing its element.
\<close>

fun keyword_spans :: "json list \<Rightarrow> exn + string list" where
  "keyword_spans [] = Inr []"
| "keyword_spans (k # ks) =
     (case child_text k of
        Inl e \<Rightarrow> Inl e
      | Inr t \<Rightarrow> (case keyword_spans ks of Inl e \<Rightarrow> Inl e | Inr ts \<Rightarrow> Inr (t # ts)))"

text \<open>
  One section of \<open>evaluationReport.sections.map\<close>, from the callback to what React
  shows for it. Reading \<open>section.status\<close> throws when the section is \<open>null\<close>. The
  icon is chosen by \<open>section.status\<close>, the heading shows \<open>section.title\<close>, and the
  content is either one \<open>span\<close> per element of \<open>section.description\<close>
  (\<open>Tokens\<close>, the text of each) or one paragraph showing \<open>section.description\<close>
  (\<open>Paragraph\<close>, its text). \<open>section.description.map\<close> exists only when the
  description is an array: on any other value the call throws a TypeError.
\<close>

datatype icon = CheckCircle | Clock | AlertCircle

datatype content = Tokens "string list" | Paragraph string

record section_view =
  icons :: "icon list"
  heading :: string
  content :: content

definition render_section :: "json \<Rightarrow> exn + section_view" where
  "render_section section =
     (case get_prop section ''status'' of
        Inl e \<Rightarrow> Inl e
      | Inr status \<Rightarrow>
          (let title = own_prop section ''title'';
               description = own_prop section ''description'';
               ics = (if status = Some (JStr ''success'') then [CheckCircle] else []) @
                     (if status = Some (JStr ''warning'') then [Clock] else []) @
                     (if status = Some (JStr ''error'') then [AlertCircle] else [])
           in if title = Some (JStr ''Missing Keywords'') then
                (case description of
                   Some (JArr keywords) \<Rightarrow>
                     (case slot_text title of
                        Inl e \<Rightarrow> Inl e
                      | Inr h \<Rightarrow>
                          (case keyword_spans keywords of
                             Inl e \<Rightarrow> Inl e
                           | Inr ts \<Rightarrow> Inr \<lparr> icons = ics, heading = h, content = Tokens ts \<rparr>))
                 | _ \<Rightarrow> Inl TypeError)
              else
                (case slot_text title of
                   Inl e \<Rightarrow> Inl e
                 | Inr h \<Rightarrow>
                     (case slot_text description of
                        Inl e \<Rightarrow> Inl e
                      | Inr p \<Rightarrow> Inr \<lparr> icons = ics, heading = h, content = Paragraph p \<rparr>))))"



subsection \<open>The controls and a session of events\<close>

text \<open>
  The Evaluate button has \<open>disabled={!cvFile || !jobFile || isEvaluating}\<close>: a
  disabled button delivers no click. The two file inputs have
  \<open>disabled={isEvaluating}\<close>. The Download button is rendered only inside
  \<open>{evaluationReport && ...}\<close>.
\<close>

definition evaluate_disabled :: "state \<Rightarrow> bool" where
  "evaluate_disabled s = (cvFile s = None \<or> jobFile s = None \<or> isEvaluating s)"

definition click_evaluate :: "state \<Rightarrow> state \<times> effect list" where
  "click_evaluate s = (if evaluate_disabled s then (s, []) else evaluateCV s)"

definition change_input :: "File list option \<Rightarrow> role \<Rightarrow> state \<Rightarrow> state \<times> effect list" where
  "change_input files ty s = (if isEvaluating s then (s, []) else handleFileUpload files ty s)"

definition click_download :: "state \<Rightarrow> state \<times> effect list" where
  "click_download s = (if truthy (evaluationReport s) then downloadReport s else (s, []))"

text \<open>
  A session is the component state with the number of evaluation requests and of export
  requests that have been sent and have not settled yet. An event is something the user
  does or a request settling; a request can only settle while it is in flight. The drop
  zones are locked during an evaluation by a style class only, so a drop is let through
  in every state.
\<close>

datatype event =
    Change role "File list option"
  | Drop role "File list"
  | DragOver
  | DragLeave
  | ClickEvaluate
  | ClickDownload
  | EvaluateSettled "json settled"
  | DownloadSettled "string settled"

record session =
  ui :: state
  evaluating :: nat
  exporting :: nat

definition sent :: "string \<Rightarrow> effect list \<Rightarrow> nat" where
  "sent url effs = length (filter (\<lambda>e. case e of Fetch u _ \<Rightarrow> u = url | _ \<Rightarrow> False) effs)"

definition dispatch :: "(state \<times> effect list) \<Rightarrow> session \<Rightarrow> session" where
  "dispatch out c =
     c\<lparr> ui := fst out,
        evaluating := evaluating c + sent evaluate_url (snd out),
        exporting := exporting c + sent report_url (snd out) \<rparr>"

fun step :: "session \<Rightarrow> event \<Rightarrow> session" where
  "step c (Change ty files) = dispatch (change_input files ty (ui c)) c"
| "step c (Drop ty files) = dispatch (handleDrop files ty (ui c)) c"
| "step c DragOver = dispatch (handleDragOver (ui c)) c"
| "step c DragLeave = dispatch (handleDragLeave (ui c)) c"
| "step c ClickEvaluate = dispatch (click_evaluate (ui c)) c"
| "step c ClickDownload = dispatch (click_download (ui c)) c"
| "step c (EvaluateSettled r) =
     (if evaluating c = 0 then c
      else dispatch (evaluateCV_resume r (ui c)) (c\<lparr>evaluating := evaluating c - 1\<rparr>))"
| "step c (DownloadSettled r) =
     (if exporting c = 0 then c
      else dispatch (downloadReport_resume r (ui c)) (c\<lparr>exporting := exporting c - 1\<rparr>))"

definition start :: session where
  "start = \<lparr> ui = initial, evaluating = 0, exporting = 0 \<rparr>"

definition run :: "event list \<Rightarrow> session" where
  "run evs = foldl step start evs"

text \<open>
  The invariant of a session: an evaluation request is in flight exactly while the
  \<open>isEvaluating\<close> cell is set.
\<close>

definition in_step :: "session \<Rightarrow> bool" where
  "in_step c = (evaluating c = (if isEvaluating (ui c) then 1 else 0))"

subsection \<open>Sample inputs\<close>

definition pdf_file :: "nat \<Rightarrow> File" where
  "pdf_file n = \<lparr> name = ''cv.pdf'', type' = ''application/pdf'', size' = n \<rparr>"

definition keywords_section :: json where
  "keywords_section =
     JObj [(''title'', JStr ''Missing Keywords''), (''status'', JStr ''warning''),
           (''description'', JArr [JStr ''teamwork'', JStr ''SQL''])]"

definition skills_section :: json where
  "skills_section =
     JObj [(''title'', JStr ''Skills''), (''status'', JStr ''success''),
           (''description'', JStr ''Strong match'')]"

definition sample_report :: json where
  "sample_report =
     JObj [(''matchScore'', JNum 87), (''sections'', JArr [skills_section, keywords_section])]"

section \<open>Requests sent by the handlers\<close>

lemma urls_differ: "evaluate_url \<noteq> report_url"
  by (simp add: evaluate_url_def report_url_def)

lemma sent_simps:
  "sent u [] = 0"
  "sent u (Fetch v b # es) = (if v = u then 1 else 0) + sent u es"
  "sent u (PreventDefault # es) = sent u es"
  "sent u (ClassListAdd c # es) = sent u es"
  "sent u (ClassListRemove c # es) = sent u es"
  "sent u (ConsoleLog m a # es) = sent u es"
  "sent u (ConsoleError m e # es) = sent u es"
  "sent u (Download f d # es) = sent u es"
  by (simp_all add: sent_def)

lemma sent_append: "sent u (xs @ ys) = sent u xs + sent u ys"
  by (simp add: sent_def)

lemma intake_sends_nothing:
  "sent u (snd (handleFileUpload files ty s)) = 0"
  "sent u (snd (handleDrop fs ty s)) = 0"
  "sent u (snd (change_input files ty s)) = 0"
  "sent u (snd (handleDragOver s)) = 0"
  "sent u (snd (handleDragLeave s)) = 0"
  by (simp_all add: handleFileUpload_def handleDrop_def change_input_def handleDragOver_def
      handleDragLeave_def Let_def sent_simps)

lemma intake_keeps_flag:
  "isEvaluating (fst (handleFileUpload files ty s)) = isEvaluating s"
  "isEvaluating (fst (handleDrop fs ty s)) = isEvaluating s"
  "isEvaluating (fst (change_input files ty s)) = isEvaluating s"
  "isEvaluating (fst (handleDragOver s)) = isEvaluating s"
  "isEvaluating (fst (handleDragLeave s)) = isEvaluating s"
  by (simp_all add: handleFileUpload_def handleDrop_def change_input_def handleDragOver_def
      handleDragLeave_def Let_def)

lemma click_evaluate_cases:
  "evaluate_disabled s \<Longrightarrow> click_evaluate s = (s, [])"
  "\<not> evaluate_disabled s \<Longrightarrow>
     isEvaluating (fst (click_evaluate s)) \<and> sent evaluate_url (snd (click_evaluate s)) = 1"
  by (auto simp add: click_evaluate_def evaluate_disabled_def evaluateCV_def sent_simps)

lemma resume_settles:
  "isEvaluating (fst (evaluateCV_resume r s)) = False"
  "sent u (snd (evaluateCV_resume r s)) = 0"
  by (auto simp add: evaluateCV_resume_def evaluate_try_def Let_def sent_simps sent_append
      split: settled.splits option.splits sum.splits prod.splits)

lemma download_keeps_flag:
  "isEvaluating (fst (click_download s)) = isEvaluating s"
  "sent evaluate_url (snd (click_download s)) = 0"
  "isEvaluating (fst (downloadReport_resume r s)) = isEvaluating s"
  "sent evaluate_url (snd (downloadReport_resume r s)) = 0"
  using urls_differ
  by (auto simp add: click_download_def downloadReport_def downloadReport_resume_def
      download_try_def sent_simps split: settled.splits option.splits sum.splits)

lemma in_step_start: "in_step start"
  by (simp add: in_step_def start_def initial_def)

lemma in_step_step: "in_step c \<Longrightarrow> in_step (step c ev)"
proof (cases ev)
  case ClickEvaluate
  assume "in_step c"
  then show ?thesis
    using ClickEvaluate click_evaluate_cases [of "ui c"]
    by (cases "evaluate_disabled (ui c)")
       (auto simp add: in_step_def dispatch_def evaluate_disabled_def sent_simps)
next
  case (EvaluateSettled r)
  assume "in_step c"
  then show ?thesis
    using EvaluateSettled by (simp add: in_step_def dispatch_def resume_settles)
qed (simp_all add: in_step_def dispatch_def intake_sends_nothing intake_keeps_flag
      download_keeps_flag)

lemma in_step_foldl: "in_step c \<Longrightarrow> in_step (foldl step c evs)"
  by (induction evs arbitrary: c) (simp_all add: in_step_step)

lemma in_step_run: "in_step (run evs)"
  by (simp add: run_def in_step_foldl in_step_start)

section \<open>One evaluation at a time\<close>

text \<open>
  Claim C1, as the component has it. After any sequence of events at most one evaluation
  request is in flight, and while one is in flight a click on the Evaluate button finds
  it disabled: the click sends nothing and leaves the whole session as it was. The guard
  is the \<open>disabled\<close> attribute of the button, not a test inside \<open>evaluateCV\<close>.
\<close>

theorem one_evaluation_in_flight:
  "evaluating (run evs) \<le> 1 \<and>
   (evaluating (run evs) = 1 \<longrightarrow>
      click_evaluate (ui (run evs)) = (ui (run evs), []) \<and>
      step (run evs) ClickEvaluate = run evs)"
  using in_step_run [of evs]
  by (auto simp add: in_step_def click_evaluate_def evaluate_disabled_def dispatch_def sent_simps
      split: if_splits)

text \<open>
  At a session where both files were taken in and the button was clicked once, one
  request is in flight and a second click changes nothing.
\<close>

theorem one_evaluation_in_flight_witness:
  "evaluating (run [Change Cv (Some [pdf_file 1000]), Drop Jd [pdf_file 2000], ClickEvaluate]) = 1 \<and>
   run [Change Cv (Some [pdf_file 1000]), Drop Jd [pdf_file 2000], ClickEvaluate, ClickEvaluate] =
   run [Change Cv (Some [pdf_file 1000]), Drop Jd [pdf_file 2000], ClickEvaluate]"
proof -
  let ?evs = "[Change Cv (Some [pdf_file 1000]), Drop Jd [pdf_file 2000], ClickEvaluate]"
  have one: "evaluating (run ?evs) = 1"
    by (simp add: run_def start_def initial_def dispatch_def change_input_def handleFileUpload_def
        handleDrop_def click_evaluate_def evaluate_disabled_def evaluateCV_def accepts_def
        first_file_def pdf_file_def sent_simps Let_def)
  have "step (run ?evs) ClickEvaluate = run ?evs"
    using one_evaluation_in_flight [of ?evs] one by blast
  moreover have "run (?evs @ [ClickEvaluate]) = step (run ?evs) ClickEvaluate"
    unfolding run_def by (simp only: foldl_append foldl.simps)
  ultimately show ?thesis using one by simp
qed

text \<open>
  Claim C1 as stated fails for the function: \<open>evaluateCV\<close> tests only the two files.
  Called again while the first request is pending (\<open>isEvaluating\<close> is set), it sends a
  second request.
\<close>

theorem second_call_sends_again:
  "isEvaluating (fst (evaluateCV
     (initial\<lparr>cvFile := Some (pdf_file 1000), jobFile := Some (pdf_file 2000)\<rparr>))) \<and>
   sent evaluate_url
     (snd (evaluateCV (fst (evaluateCV
        (initial\<lparr>cvFile := Some (pdf_file 1000), jobFile := Some (pdf_file 2000)\<rparr>))))) = 1"
  by (simp add: evaluateCV_def initial_def sent_simps)

section \<open>A failed evaluation\<close>

text \<open>
  Claim C2, as the component has it. When the evaluation response is not ok, whatever
  its body, the error shown is the fixed text \<open>Failed to evaluate CV. Please try again.\<close>,
  the evaluating flag is cleared, and the report and every other cell keep their values.
  When the body carries a non-empty string \<open>error\<close>, that text goes into the message
  of the thrown \<open>Error\<close>, which the \<open>catch\<close> block writes to the console only.
\<close>

theorem failed_evaluation_fixed_message:
  "\<not> ok status \<Longrightarrow>
   fst (evaluateCV_resume (Resolved status body) s) =
     s\<lparr>error := Some ''Failed to evaluate CV. Please try again.'', isEvaluating := False\<rparr> \<and>
   (own_prop res ''error'' = Some (JStr msg) \<and> msg \<noteq> [] \<longrightarrow>
      snd (evaluateCV_resume (Resolved status (Some res)) s) =
        [ConsoleLog ''Response received:'' (Some (LStatus status)),
         ConsoleLog ''Parsed result:'' (Some (LJson res)),
         ConsoleError ''Full error details:'' (Error (''API error: '' @ msg))])"
proof (intro conjI impI)
  assume "\<not> ok status"
  then show "fst (evaluateCV_resume (Resolved status body) s) =
     s\<lparr>error := Some ''Failed to evaluate CV. Please try again.'', isEvaluating := False\<rparr>"
    by (simp add: evaluateCV_resume_def evaluate_try_def evaluate_error_def Let_def
        split: option.splits sum.splits)
next
  assume n: "\<not> ok status"
    and e: "own_prop res ''error'' = Some (JStr msg) \<and> msg \<noteq> []"
  from e have "res \<noteq> JNull" by auto
  with n e show "snd (evaluateCV_resume (Resolved status (Some res)) s) =
        [ConsoleLog ''Response received:'' (Some (LStatus status)),
         ConsoleLog ''Parsed result:'' (Some (LJson res)),
         ConsoleError ''Full error details:'' (Error (''API error: '' @ msg))]"
    by (simp add: evaluateCV_resume_def evaluate_try_def get_prop_def Let_def)
qed

text \<open>
  The response of the claim, status 500 with body \<open>{ "error": "parse failure" }\<close>,
  arriving while an evaluation is pending.
\<close>

theorem failed_evaluation_fixed_message_witness:
  "\<not> ok 500 \<and>
   fst (evaluateCV_resume (Resolved 500 (Some (JObj [(''error'', JStr ''parse failure'')])))
          (initial\<lparr>isEvaluating := True\<rparr>)) =
     initial\<lparr>error := Some ''Failed to evaluate CV. Please try again.''\<rparr> \<and>
   snd (evaluateCV_resume (Resolved 500 (Some (JObj [(''error'', JStr ''parse failure'')])))
          (initial\<lparr>isEvaluating := True\<rparr>)) =
     [ConsoleLog ''Response received:'' (Some (LStatus 500)),
      ConsoleLog ''Parsed result:'' (Some (LJson (JObj [(''error'', JStr ''parse failure'')]))),
      ConsoleError ''Full error details:'' (Error ''API error: parse failure'')]"
proof -
  have h: "\<not> ok 500" by (simp add: ok_def)
  have p: "own_prop (JObj [(''error'', JStr ''parse failure'')]) ''error''
             = Some (JStr ''parse failure'') \<and> ''parse failure'' \<noteq> []"
    by simp
  show ?thesis
    using h p
      failed_evaluation_fixed_message [OF h,
        of "Some (JObj [(''error'', JStr ''parse failure'')])" "initial\<lparr>isEvaluating := True\<rparr>"
           "JObj [(''error'', JStr ''parse failure'')]" "''parse failure''"]
    by (simp add: initial_def)
qed

text \<open>
  Claim C2 as stated fails: for that response the error shown is the fixed text, and the
  server's text \<open>parse failure\<close> does not occur in it.
\<close>

theorem server_text_not_surfaced:
  "error (fst (evaluateCV_resume
      (Resolved 500 (Some (JObj [(''error'', JStr ''parse failure'')]))) initial))
     = Some ''Failed to evaluate CV. Please try again.'' \<and>
   \<not> sublist ''parse failure'' ''Failed to evaluate CV. Please try again.''"
proof
  show "error (fst (evaluateCV_resume
      (Resolved 500 (Some (JObj [(''error'', JStr ''parse failure'')]))) initial))
     = Some ''Failed to evaluate CV. Please try again.''"
    by (simp add: evaluateCV_resume_def evaluate_try_def ok_def get_prop_def evaluate_error_def
        Let_def)
  show "\<not> sublist ''parse failure'' ''Failed to evaluate CV. Please try again.''"
    by code_simp
qed

section \<open>File intake\<close>

text \<open>
  Claim C3. A file handed to either intake handler is put into the slot of its role, and
  the error cleared, exactly when its type is \<open>application/pdf\<close> and its size is at most
  5,242,880 bytes; otherwise the state is left as it was but for the error, which is set to
  \<open>Please upload a PDF file under 5MB\<close>.
\<close>

theorem intake_accepts_iff:
  "\<forall>s' \<in> {fst (handleFileUpload (Some (f # fs)) ty s), fst (handleDrop (f # fs) ty s)}.
     (type' f = ''application/pdf'' \<and> size' f \<le> 5242880 \<longrightarrow>
        s' = (if ty = Cv then s\<lparr>cvFile := Some f\<rparr> else s\<lparr>jobFile := Some f\<rparr>)\<lparr>error := None\<rparr>) \<and>
     (\<not> (type' f = ''application/pdf'' \<and> size' f \<le> 5242880) \<longrightarrow>
        s' = s\<lparr>error := Some ''Please upload a PDF file under 5MB''\<rparr>)"
  by (simp add: handleFileUpload_def handleDrop_def accepts_def first_file_def pdf_error_def
      Let_def)

text \<open>The boundary: 5,242,880 bytes is accepted and 5,242,881 bytes is rejected.\<close>

theorem intake_accepts_iff_witness:
  "fst (handleFileUpload (Some [pdf_file 5242880]) Cv initial) =
     initial\<lparr>cvFile := Some (pdf_file 5242880)\<rparr> \<and>
   fst (handleDrop [pdf_file 5242880] Jd initial) =
     initial\<lparr>jobFile := Some (pdf_file 5242880)\<rparr> \<and>
   fst (handleFileUpload (Some [pdf_file 5242881]) Cv initial) =
     initial\<lparr>error := Some ''Please upload a PDF file under 5MB''\<rparr> \<and>
   fst (handleDrop [pdf_file 5242881] Jd initial) =
     initial\<lparr>error := Some ''Please upload a PDF file under 5MB''\<rparr>"
  using intake_accepts_iff [of "pdf_file 5242880" "[]" Cv initial]
    intake_accepts_iff [of "pdf_file 5242880" "[]" Jd initial]
    intake_accepts_iff [of "pdf_file 5242881" "[]" Cv initial]
    intake_accepts_iff [of "pdf_file 5242881" "[]" Jd initial]
  by (simp add: pdf_file_def initial_def)

text \<open>
  Claim C9. Dropping a file list and selecting the same file list leave the same state,
  for every role and every state before.
\<close>

theorem intake_paths_agree:
  "fst (handleDrop files ty s) = fst (handleFileUpload (Some files) ty s)"
  by (simp add: handleDrop_def handleFileUpload_def Let_def)

theorem intake_paths_agree_witness:
  "fst (handleDrop [pdf_file 1000] Cv initial) = initial\<lparr>cvFile := Some (pdf_file 1000)\<rparr> \<and>
   fst (handleFileUpload (Some [pdf_file 1000]) Cv initial) =
     initial\<lparr>cvFile := Some (pdf_file 1000)\<rparr>"
  using intake_paths_agree [of "[pdf_file 1000]" Cv initial]
  by (simp add: handleFileUpload_def accepts_def first_file_def pdf_file_def initial_def)

text \<open>
  Claim C10. An intake event without a file (an empty file list, or no file list at all
  for the input) sets the error \<open>Please upload a PDF file under 5MB\<close> and changes
  nothing else: both slots keep their content.
\<close>

theorem empty_intake_raises:
  "fst (handleFileUpload (Some []) ty s) =
     s\<lparr>error := Some ''Please upload a PDF file under 5MB''\<rparr> \<and>
   fst (handleFileUpload None ty s) =
     s\<lparr>error := Some ''Please upload a PDF file under 5MB''\<rparr> \<and>
   fst (handleDrop [] ty s) =
     s\<lparr>error := Some ''Please upload a PDF file under 5MB''\<rparr>"
  by (simp add: handleDrop_def handleFileUpload_def accepts_def first_file_def pdf_error_def)

theorem empty_intake_raises_witness:
  "fst (handleDrop [] Jd (initial\<lparr>cvFile := Some (pdf_file 1000)\<rparr>)) =
     initial\<lparr>cvFile := Some (pdf_file 1000),
             error := Some ''Please upload a PDF file under 5MB''\<rparr>"
  using empty_intake_raises [of Jd "initial\<lparr>cvFile := Some (pdf_file 1000)\<rparr>"]
  by (simp add: initial_def)

section \<open>A successful evaluation\<close>

text \<open>
  Claim C4. When the evaluation response is ok (status 200 to 299) and its body parses,
  the parsed body becomes the report as it is and the evaluating flag is cleared; no
  other cell changes.
\<close>

theorem success_stores_report:
  "ok status \<Longrightarrow>
   fst (evaluateCV_resume (Resolved status (Some body)) s) =
     s\<lparr>evaluationReport := body, isEvaluating := False\<rparr>"
  by (simp add: evaluateCV_resume_def evaluate_try_def Let_def)

text \<open>
  A response with \<open>matchScore = 87\<close> and two sections: the stored report has that
  score and those two sections in their order.
\<close>

theorem success_stores_report_witness:
  "ok 200 \<and>
   get_prop (evaluationReport (fst (evaluateCV_resume (Resolved 200 (Some sample_report))
       (initial\<lparr>isEvaluating := True\<rparr>)))) ''matchScore'' = Inr (Some (JNum 87)) \<and>
   get_prop (evaluationReport (fst (evaluateCV_resume (Resolved 200 (Some sample_report))
       (initial\<lparr>isEvaluating := True\<rparr>)))) ''sections''
     = Inr (Some (JArr [skills_section, keywords_section])) \<and>
   \<not> isEvaluating (fst (evaluateCV_resume (Resolved 200 (Some sample_report))
       (initial\<lparr>isEvaluating := True\<rparr>)))"
proof -
  have h: "ok 200" by (simp add: ok_def)
  show ?thesis
    using h success_stores_report [OF h, of sample_report "initial\<lparr>isEvaluating := True\<rparr>"]
    by (simp add: sample_report_def get_prop_def)
qed

section \<open>Evaluation without both files\<close>

text \<open>
  Claim C5. When one of the two file cells is empty, \<open>evaluateCV\<close> sends nothing, sets
  the error \<open>Please upload both CV and Job Description\<close> and changes no other cell: the
  evaluating flag keeps its value.
\<close>

theorem evaluate_needs_both_files:
  "cvFile s = None \<or> jobFile s = None \<Longrightarrow>
   evaluateCV s = (s\<lparr>error := Some ''Please upload both CV and Job Description''\<rparr>, [])"
  by (auto simp add: evaluateCV_def both_error_def split: option.splits)

theorem evaluate_needs_both_files_witness:
  "evaluateCV (initial\<lparr>cvFile := Some (pdf_file 1000)\<rparr>) =
     (initial\<lparr>cvFile := Some (pdf_file 1000),
              error := Some ''Please upload both CV and Job Description''\<rparr>, [])"
  using evaluate_needs_both_files [of "initial\<lparr>cvFile := Some (pdf_file 1000)\<rparr>"]
  by (simp add: initial_def)

section \<open>Report export\<close>

text \<open>
  Claim C7. When the export fails (the request is rejected, the response is not ok, or
  its body cannot be read), the error is set to \<open>Failed to download report\<close> and every
  other cell, the two files, the report and the evaluating flag, keeps its value. Sending
  the request changes no cell either.
\<close>

theorem export_failure_frame:
  "r = Rejected \<or> (\<exists>status body. r = Resolved status body \<and> (\<not> ok status \<or> body = None)) \<Longrightarrow>
   fst (downloadReport s) = s \<and>
   fst (downloadReport_resume r s) = s\<lparr>error := Some ''Failed to download report''\<rparr>"
  by (auto simp add: downloadReport_def downloadReport_resume_def download_try_def
      download_error_def)

theorem export_failure_frame_witness:
  "\<not> ok 500 \<and>
   fst (downloadReport_resume (Resolved 500 None) (initial\<lparr>evaluationReport := sample_report\<rparr>)) =
     initial\<lparr>evaluationReport := sample_report, error := Some ''Failed to download report''\<rparr>"
proof -
  have h: "\<not> ok 500" by (simp add: ok_def)
  then have "Resolved 500 None = (Rejected :: string settled) \<or>
      (\<exists>status body. Resolved 500 (None :: string option) = Resolved status body \<and>
         (\<not> ok status \<or> body = None))"
    by blast
  from export_failure_frame [OF this, of "initial\<lparr>evaluationReport := sample_report\<rparr>"] h
  show ?thesis by (simp add: initial_def)
qed

section \<open>Clearing the error\<close>

text \<open>
  The intake handlers clear the error when they accept a file, and \<open>evaluateCV\<close>
  clears it when it submits. \<open>downloadReport\<close> has no \<open>setError(null)\<close>: a successful
  export leaves the error as it was.
\<close>

lemma error_cleared_by_intake_and_submission:
  "(accepts (first_file files) \<longrightarrow>
      error (fst (handleFileUpload (Some files) ty s)) = None \<and>
      error (fst (handleDrop files ty s)) = None) \<and>
   (cvFile s \<noteq> None \<and> jobFile s \<noteq> None \<longrightarrow> error (fst (evaluateCV s)) = None) \<and>
   (ok status \<longrightarrow>
      error (fst (downloadReport_resume (Resolved status (Some blob)) (fst (downloadReport s))))
        = error s)"
  by (auto simp add: handleFileUpload_def handleDrop_def evaluateCV_def downloadReport_def
      downloadReport_resume_def download_try_def Let_def)

text \<open>
  Claim C6 at a state that holds a report and the error of a failed export: the export is
  tried again and succeeds (status 200, a body), and the error is still there.
\<close>

theorem export_success_keeps_error:
  "error (fst (downloadReport_resume (Resolved 200 (Some ''PDF''))
     (fst (downloadReport
        (initial\<lparr>evaluationReport := sample_report,
                 error := Some ''Failed to download report''\<rparr>)))))
   = Some ''Failed to download report''"
  by (simp add: downloadReport_def downloadReport_resume_def download_try_def ok_def initial_def)

section \<open>Rendering sections\<close>














text \<open>
  An object as description, or among the keywords, is refused by React when the section
  is rendered.
\<close>

lemma object_child_refused:
  "render_section (JObj [(''title'', JStr ''Skills''), (''status'', JStr ''success''),
                         (''description'', JObj [(''text'', JStr ''Strong match'')])])
     = Inl InvalidChild"
  "render_section (JObj [(''title'', JStr ''Missing Keywords''), (''status'', JStr ''warning''),
                         (''description'', JArr [JStr ''SQL'', JObj [(''k'', JStr ''teamwork'')]])])
     = Inl InvalidChild"
  by (simp_all add: render_section_def get_prop_def slot_text_def)

end
